theory Spec2Isabelle
  imports Complex_Main
begin

section \<open>The air-hockey environment (part3/air_hockey_env.py)\<close>

text \<open>
  The environment \<^verbatim>\<open>AirHockeyEnv\<close> wraps a 2D rigid-body engine. Coordinates, velocities,
  forces and rewards are Python floats; they are modelled as \<^typ>\<open>real\<close>, so rounding and
  the non-finite floats (inf, NaN) are outside the model. A two-component vector
  (a pymunk \<^verbatim>\<open>Vec2d\<close>, a position tuple, an action array of the declared shape (2,))
  is a pair, read with \<^const>\<open>fst\<close> (index 0, \<^verbatim>\<open>.x\<close>) and \<^const>\<open>snd\<close> (index 1, \<^verbatim>\<open>.y\<close>).
\<close>

type_synonym vec = "real \<times> real"

subsection \<open>Data model\<close>

text \<open>A rigid body of the engine: what the environment reads and writes of it.\<close>

record body =
  position :: vec
  velocity :: vec
  force :: vec

text \<open>
  The engine's world \<^verbatim>\<open>self.space\<close>: the three bodies that \<^verbatim>\<open>reset\<close> adds to it, and
  \<open>solver\<close>, whatever else the engine keeps between steps (walls, the pivot joint,
  cached contacts, angles), of an arbitrary type.
\<close>

record 'h space =
  ball :: body
  ai_paddle :: body
  agent_paddle :: body
  solver :: 'h

text \<open>
  The environment object after \<^verbatim>\<open>reset\<close>. \<open>mouse_body\<close> is the position of the kinematic
  control body; it is never added to the space (only the joint is), so the engine's step
  reads it and does not move it.
\<close>

record 'h env =
  space :: "'h space"
  mouse_body :: vec
  steps :: int
  with_bot :: bool
  render_mode :: "string option"

text \<open>What \<^verbatim>\<open>step\<close> returns (the empty info dict left out).\<close>

record step_result =
  obs :: "real list"
  reward :: real
  terminated :: bool
  truncated :: bool

text \<open>
  The engine's \<^verbatim>\<open>space.step(dt)\<close> is outside the repository. It is a parameter: any function
  of the time step, the control body's position and the world. Every theorem below holds
  for every such function.
\<close>

type_synonym 'h physics = "real \<Rightarrow> vec \<Rightarrow> 'h space \<Rightarrow> 'h space"

subsection \<open>Constants of \<^verbatim>\<open>__init__\<close>\<close>

definition width :: real where
  "width = 500"

definition height :: real where
  "height = 700"

definition paddle_radius :: real where
  "paddle_radius = 25"

definition ball_radius :: real where
  "ball_radius = 15"

definition goal_width :: real where
  "goal_width = 180"

subsection \<open>Library functions\<close>

text \<open>\<^verbatim>\<open>np.clip(x, lo, hi)\<close> is \<^verbatim>\<open>minimum(maximum(x, lo), hi)\<close>.\<close>

definition clip :: "real \<Rightarrow> real \<Rightarrow> real \<Rightarrow> real" where
  "clip x lo hi = min (max x lo) hi"

text \<open>
  \<^verbatim>\<open>body.apply_force_at_local_point(f)\<close> at the default point (0, 0) adds \<open>f\<close> to the force
  accumulated on the body (the paddles are frictionless circles driven at their centre,
  so the body's frame is the world's).
\<close>

definition apply_force_at_local_point :: "body \<Rightarrow> vec \<Rightarrow> body" where
  "apply_force_at_local_point b f =
     b\<lparr>force := (fst (force b) + fst f, snd (force b) + snd f)\<rparr>"

text \<open>Euclidean length and distance, for statements about magnitudes.\<close>

definition vec_length :: "vec \<Rightarrow> real" where
  "vec_length v = sqrt ((fst v)\<^sup>2 + (snd v)\<^sup>2)"

definition distance :: "vec \<Rightarrow> vec \<Rightarrow> real" where
  "distance p q = vec_length (fst p - fst q, snd p - snd q)"

subsection \<open>\<^verbatim>\<open>_apply_action\<close>\<close>

definition force_mult :: real where
  "force_mult = 50000"

text \<open>The tuple that \<^verbatim>\<open>_apply_action\<close> passes to the engine.\<close>

definition action_force :: "vec \<Rightarrow> vec" where
  "action_force action =
     (let action = (clip (fst action) (- 1) 1, clip (snd action) (- 1) 1)
      in (fst action * force_mult, snd action * force_mult))"

definition apply_action :: "body \<Rightarrow> vec \<Rightarrow> body" where
  "apply_action paddle action = apply_force_at_local_point paddle (action_force action)"

text \<open>
  \<^verbatim>\<open>_apply_action\<close> itself does not check the shape of what it is given. On a
  one-dimensional array of numbers of any length, \<^verbatim>\<open>np.clip\<close> clamps every entry and keeps
  the length, and building the tuple reads \<^verbatim>\<open>action[0]\<close> and \<^verbatim>\<open>action[1]\<close>, each of which
  raises \<^verbatim>\<open>IndexError\<close> when the entry is missing; entries after the second are ignored.
  \<open>array_force\<close> is the tuple passed to the engine, or the error; \<open>apply_action_array\<close> is
  the paddle afterwards, or the error.
\<close>

datatype py_error = IndexError

definition array_force :: "real list \<Rightarrow> py_error + vec" where
  "array_force action =
     (let action = map (\<lambda>a. clip a (- 1) 1) action
      in if length action < 2 then Inl IndexError
         else Inr (action ! 0 * force_mult, action ! 1 * force_mult))"

definition apply_action_array :: "body \<Rightarrow> real list \<Rightarrow> py_error + body" where
  "apply_action_array paddle action =
     (case array_force action of
        Inl err \<Rightarrow> Inl err
      | Inr f \<Rightarrow> Inr (apply_force_at_local_point paddle f))"

subsection \<open>\<^verbatim>\<open>_move_bot\<close>\<close>

definition move_bot :: "'h env \<Rightarrow> 'h env" where
  "move_bot e =
     (let ball_x = fst (position (ball (space e)));
          current_x = fst (mouse_body e);
          speed_limit = 8;
          diff = ball_x - current_x;
          new_x = (if \<bar>diff\<bar> < speed_limit then ball_x
                   else current_x + speed_limit * sgn diff);
          new_x = clip new_x paddle_radius (width - paddle_radius)
      in e\<lparr>mouse_body := (new_x, height - 100)\<rparr>)"

subsection \<open>\<^verbatim>\<open>_constrain_paddle_movement\<close>\<close>

definition set_agent_position :: "vec \<Rightarrow> 'h env \<Rightarrow> 'h env" where
  "set_agent_position v e =
     e\<lparr>space := (space e)\<lparr>agent_paddle := (agent_paddle (space e))\<lparr>position := v\<rparr>\<rparr>\<rparr>"

definition set_ai_position :: "vec \<Rightarrow> 'h env \<Rightarrow> 'h env" where
  "set_ai_position v e =
     e\<lparr>space := (space e)\<lparr>ai_paddle := (ai_paddle (space e))\<lparr>position := v\<rparr>\<rparr>\<rparr>"

definition constrain_paddle_movement :: "'h env \<Rightarrow> 'h env" where
  "constrain_paddle_movement e =
     (let p = position (agent_paddle (space e));
          new_x = clip (fst p) paddle_radius (width - paddle_radius);
          new_y = clip (snd p) (height / 2 + paddle_radius) (height - paddle_radius);
          e = set_agent_position (new_x, new_y) e;
          p_ai = position (ai_paddle (space e));
          new_ai_x = clip (fst p_ai) paddle_radius (width - paddle_radius);
          new_ai_y = clip (snd p_ai) paddle_radius (height / 2 - paddle_radius)
      in set_ai_position (new_ai_x, new_ai_y) e)"

subsection \<open>\<^verbatim>\<open>_get_obs\<close>\<close>

definition get_obs :: "'h env \<Rightarrow> real list" where
  "get_obs e =
     (let w = width; h = height;
          (bx, by) = position (ball (space e));
          (bvx, bvy) = velocity (ball (space e));
          (ax, ay) = position (ai_paddle (space e));
          (ox, oy) = position (agent_paddle (space e))
      in [bx / w, by / h, bvx / 1000, bvy / 1000, ax / w, ay / h, ox / w, oy / h])"

subsection \<open>\<^verbatim>\<open>reset\<close>\<close>

definition create_body :: "real \<Rightarrow> real \<Rightarrow> body" where
  "create_body x y = \<lparr>position = (x, y), velocity = (0, 0), force = (0, 0)\<rparr>"

text \<open>
  \<^verbatim>\<open>reset\<close> builds a fresh world. Its inputs here: the engine's initial hidden state, the
  two draws of \<^verbatim>\<open>random.uniform(-200, 200)\<close>, and the two attributes it keeps from the
  object (\<^verbatim>\<open>with_bot\<close>, \<^verbatim>\<open>render_mode\<close>).
\<close>

definition create_ball :: "real \<Rightarrow> real \<Rightarrow> bool \<Rightarrow> vec \<Rightarrow> body" where
  "create_ball x y random_launch rand =
     (if random_launch then (create_body x y)\<lparr>velocity := rand\<rparr> else create_body x y)"

definition reset :: "'h \<Rightarrow> vec \<Rightarrow> bool \<Rightarrow> string option \<Rightarrow> real list \<times> 'h env" where
  "reset h0 rand use_bot mode =
     (let is_training = use_bot;
          b = create_ball (width / 2) (height / 2) is_training rand;
          ai = create_body (width / 2) 100;
          agent = create_body (width / 2) (height - 100);
          e = \<lparr>space = \<lparr>ball = b, ai_paddle = ai, agent_paddle = agent, solver = h0\<rparr>,
               mouse_body = position agent, steps = 0, with_bot = use_bot, render_mode = mode\<rparr>
      in (get_obs e, e))"

subsection \<open>\<^verbatim>\<open>step\<close>\<close>

text \<open>The loop \<^verbatim>\<open>for _ in range(10): self.space.step(dt/10); self._constrain_paddle_movement()\<close>.\<close>

fun physics_loop :: "nat \<Rightarrow> 'h physics \<Rightarrow> real \<Rightarrow> 'h env \<Rightarrow> 'h env" where
  "physics_loop 0 phys dt e = e"
| "physics_loop (Suc n) phys dt e =
     physics_loop n phys dt
       (constrain_paddle_movement (e\<lparr>space := phys (dt / 10) (mouse_body e) (space e)\<rparr>))"

text \<open>
  The first half of \<^verbatim>\<open>step\<close>: the action on the upper paddle, the bot, the ten substeps.
  Its result is the state "after the physics update".
\<close>

definition physics_update :: "'h physics \<Rightarrow> vec \<Rightarrow> 'h env \<Rightarrow> 'h env" where
  "physics_update phys action e =
     (let e = e\<lparr>space := (space e)\<lparr>ai_paddle := apply_action (ai_paddle (space e)) action\<rparr>\<rparr>;
          e = (if with_bot e then move_bot e else e);
          dt = 1 / 60
      in physics_loop 10 phys dt e)"

text \<open>
  The second half: the counter, the reward and the two flags. Rendering
  (\<^verbatim>\<open>render_mode == "human"\<close>) draws the state and changes nothing that is modelled.
\<close>

definition step :: "'h physics \<Rightarrow> vec \<Rightarrow> 'h env \<Rightarrow> step_result \<times> 'h env" where
  "step phys action e =
     (let e = physics_update phys action e;
          e = e\<lparr>steps := steps e + 1\<rparr>;
          reward = 0;
          terminated = False;
          truncated = False;
          ball_y = snd (position (ball (space e)));
          (reward, terminated) =
             (if ball_y < 0 then (10, True)
              else if ball_y > height then (- 10, True)
              else (reward, terminated));
          reward = (if ball_y < height / 2 then reward + 0.001 else reward);
          truncated = (if steps e > 2000 then True else truncated)
      in (\<lparr>obs = get_obs e, reward = reward, terminated = terminated, truncated = truncated\<rparr>,
          e))"

text \<open>A driver that calls \<^verbatim>\<open>step\<close> once per action, keeping every result.\<close>

fun run :: "'h physics \<Rightarrow> vec list \<Rightarrow> 'h env \<Rightarrow> step_result list \<times> 'h env" where
  "run phys [] e = ([], e)"
| "run phys (a # as) e =
     (let (r, e') = step phys a e;
          (rs, e'') = run phys as e'
      in (r # rs, e''))"

subsection \<open>Vocabulary of the statements\<close>

text \<open>A point inside the axis-parallel box \<open>[x0, x1] \<times> [y0, y1]\<close>.\<close>

definition in_box :: "vec \<Rightarrow> real \<Rightarrow> real \<Rightarrow> real \<Rightarrow> real \<Rightarrow> bool" where
  "in_box p x0 x1 y0 y1 = (x0 \<le> fst p \<and> fst p \<le> x1 \<and> y0 \<le> snd p \<and> snd p \<le> y1)"

subsection \<open>Concrete inputs\<close>

text \<open>
  One engine to run the environment on: the ball drifts with its velocity, nothing
  collides, the paddles stay where they are. It is used only to evaluate the theorems at
  concrete inputs.
\<close>

definition coast :: "unit physics" where
  "coast dt m s =
     s\<lparr>ball := (ball s)\<lparr>position :=
        (fst (position (ball s)) + fst (velocity (ball s)) * dt,
         snd (position (ball s)) + snd (velocity (ball s)) * dt)\<rparr>\<rparr>"

text \<open>The state after a training reset whose random launch drew (150, -200).\<close>

definition kickoff :: "unit env" where
  "kickoff = snd (reset () (150, - 200) True None)"

definition place_ball :: "vec \<Rightarrow> vec \<Rightarrow> 'h env \<Rightarrow> 'h env" where
  "place_ball p v e =
     e\<lparr>space := (space e)\<lparr>ball := \<lparr>position = p, velocity = v, force = (0, 0)\<rparr>\<rparr>\<rparr>"

text \<open>The ball two units in front of the upper goal line, moving up at 600 units a second.\<close>

definition top_attack :: "unit env" where
  "top_attack = place_ball (250, 2) (0, - 600) kickoff"

text \<open>The ball two units in front of the lower goal line, moving down at 600 units a second.\<close>

definition bottom_attack :: "unit env" where
  "bottom_attack = place_ball (250, 698) (0, 600) kickoff"

text \<open>The state after a reset in play mode (\<^verbatim>\<open>with_bot = False\<close>): the ball at rest at the centre.\<close>

definition standstill :: "unit env" where
  "standstill = snd (reset () (0, 0) False None)"

text \<open>After a training reset, the ball far to the left of the bot's control point (x = 250).\<close>

definition far_ball :: "unit env" where
  "far_ball = place_ball (100, 350) (0, 0) kickoff"

text \<open>After a training reset, the ball three units to the right of the control point.\<close>

definition near_ball :: "unit env" where
  "near_ball = place_ball (253, 350) (0, 0) kickoff"

subsection \<open>The bot's tracking rule, in the specification's words\<close>

text \<open>
  "Moves horizontally toward the ball's x position by at most the capped per-step speed of
  8.0 units, snapping exactly to the ball's x when the horizontal distance is less than
  8.0". This definition follows that sentence; \<open>move_bot\<close> above follows the source, and the
  two are compared below.
\<close>

definition spec_tracked_x :: "real \<Rightarrow> real \<Rightarrow> real" where
  "spec_tracked_x ball_x current_x =
     (if \<bar>ball_x - current_x\<bar> < 8 then ball_x
      else if current_x < ball_x then current_x + 8
      else current_x - 8)"

section \<open>Properties\<close>

subsection \<open>Auxiliary facts\<close>

lemma clip_bounds: "lo \<le> hi \<Longrightarrow> lo \<le> clip x lo hi \<and> clip x lo hi \<le> hi"
  by (simp add: clip_def)

lemma constrain_agent_position:
  "position (agent_paddle (space (constrain_paddle_movement e))) =
     (clip (fst (position (agent_paddle (space e)))) paddle_radius (width - paddle_radius),
      clip (snd (position (agent_paddle (space e)))) (height / 2 + paddle_radius) (height - paddle_radius))"
  by (simp add: constrain_paddle_movement_def set_agent_position_def set_ai_position_def Let_def)

lemma constrain_ai_position:
  "position (ai_paddle (space (constrain_paddle_movement e))) =
     (clip (fst (position (ai_paddle (space e)))) paddle_radius (width - paddle_radius),
      clip (snd (position (ai_paddle (space e)))) paddle_radius (height / 2 - paddle_radius))"
  by (simp add: constrain_paddle_movement_def set_agent_position_def set_ai_position_def Let_def)

lemma constrain_frame:
  "ball (space (constrain_paddle_movement e)) = ball (space e)"
  "velocity (ai_paddle (space (constrain_paddle_movement e))) = velocity (ai_paddle (space e))"
  "velocity (agent_paddle (space (constrain_paddle_movement e))) = velocity (agent_paddle (space e))"
  "force (ai_paddle (space (constrain_paddle_movement e))) = force (ai_paddle (space e))"
  "force (agent_paddle (space (constrain_paddle_movement e))) = force (agent_paddle (space e))"
  "solver (space (constrain_paddle_movement e)) = solver (space e)"
  "mouse_body (constrain_paddle_movement e) = mouse_body e"
  "steps (constrain_paddle_movement e) = steps e"
  "with_bot (constrain_paddle_movement e) = with_bot e"
  "render_mode (constrain_paddle_movement e) = render_mode e"
  by (simp_all add: constrain_paddle_movement_def set_agent_position_def set_ai_position_def Let_def)

lemma constrain_in_box:
  "in_box (position (agent_paddle (space (constrain_paddle_movement e))))
     paddle_radius (width - paddle_radius) (height / 2 + paddle_radius) (height - paddle_radius)"
  "in_box (position (ai_paddle (space (constrain_paddle_movement e))))
     paddle_radius (width - paddle_radius) paddle_radius (height / 2 - paddle_radius)"
  by (simp_all add: in_box_def constrain_agent_position constrain_ai_position clip_def
        width_def height_def paddle_radius_def)

lemma physics_loop_frame:
  "mouse_body (physics_loop n phys dt e) = mouse_body e"
  "steps (physics_loop n phys dt e) = steps e"
  "with_bot (physics_loop n phys dt e) = with_bot e"
  "render_mode (physics_loop n phys dt e) = render_mode e"
  by (induction n arbitrary: e, simp_all add: constrain_frame)+

lemma physics_loop_in_box:
  "in_box (position (agent_paddle (space (physics_loop (Suc n) phys dt e))))
     paddle_radius (width - paddle_radius) (height / 2 + paddle_radius) (height - paddle_radius) \<and>
   in_box (position (ai_paddle (space (physics_loop (Suc n) phys dt e))))
     paddle_radius (width - paddle_radius) paddle_radius (height / 2 - paddle_radius)"
proof (induction n arbitrary: e)
  case 0
  show ?case by (simp add: constrain_in_box)
next
  case (Suc n)
  show ?case using Suc.IH by (simp del: physics_loop.simps(2) add: physics_loop.simps(2)[of "Suc n"])
qed

lemma step_steps: "steps (snd (step phys a e)) = steps e + 1"
  by (simp add: step_def physics_update_def Let_def physics_loop_frame move_bot_def split: prod.splits)

lemma step_truncated: "truncated (fst (step phys a e)) = (2000 < steps e + 1)"
  by (simp add: step_def physics_update_def Let_def physics_loop_frame move_bot_def split: prod.splits)

lemma run_Cons:
  "run phys (a # as) e =
     (fst (step phys a e) # fst (run phys as (snd (step phys a e))),
      snd (run phys as (snd (step phys a e))))"
  by (simp add: Let_def case_prod_beta)

lemma run_length: "length (fst (run phys as e)) = length as"
  by (induction as arbitrary: e) (simp_all add: run_Cons del: run.simps(2))

lemma run_truncated_nth:
  "i < length as \<Longrightarrow> truncated (fst (run phys as e) ! i) = (2000 < steps e + int i + 1)"
proof (induction as arbitrary: e i)
  case Nil
  then show ?case by simp
next
  case (Cons a as)
  show ?case
  proof (cases i)
    case 0
    then show ?thesis
      using step_truncated[of phys a e] by (simp add: run_Cons del: run.simps(2))
  next
    case (Suc j)
    then have "j < length as" using Cons.prems by simp
    from Cons.IH[OF this, of "snd (step phys a e)"] show ?thesis
      using Suc step_steps[of phys a e] by (simp add: run_Cons del: run.simps(2))
  qed
qed

lemma coast_ball:
  "ball (coast dt m s) =
     (ball s)\<lparr>position :=
        (fst (position (ball s)) + fst (velocity (ball s)) * dt,
         snd (position (ball s)) + snd (velocity (ball s)) * dt)\<rparr>"
  by (simp add: coast_def)

lemma coast_loop_ball:
  "ball (space (physics_loop n coast dt e)) =
     (ball (space e))\<lparr>position :=
        (fst (position (ball (space e))) + real n * (fst (velocity (ball (space e))) * (dt / 10)),
         snd (position (ball (space e))) + real n * (snd (velocity (ball (space e))) * (dt / 10)))\<rparr>"
proof (induction n arbitrary: e)
  case 0
  show ?case by simp
next
  case (Suc n)
  show ?case
    by (simp add: Suc.IH constrain_frame coast_ball algebra_simps)
qed

lemma coast_update_ball:
  "ball (space (physics_update coast a e)) =
     (ball (space e))\<lparr>position :=
        (fst (position (ball (space e))) + fst (velocity (ball (space e))) / 60,
         snd (position (ball (space e))) + snd (velocity (ball (space e))) / 60)\<rparr>"
  by (simp add: physics_update_def Let_def coast_loop_ball move_bot_def)

lemma kickoff_ball: "ball (space kickoff) = \<lparr>position = (250, 350), velocity = (150, - 200), force = (0, 0)\<rparr>"
  by (simp add: kickoff_def reset_def Let_def create_ball_def create_body_def width_def height_def)

lemma top_attack_ball: "ball (space top_attack) = \<lparr>position = (250, 2), velocity = (0, - 600), force = (0, 0)\<rparr>"
  by (simp add: top_attack_def place_ball_def)

lemma bottom_attack_ball: "ball (space bottom_attack) = \<lparr>position = (250, 698), velocity = (0, 600), force = (0, 0)\<rparr>"
  by (simp add: bottom_attack_def place_ball_def)

subsection \<open>Reward and termination\<close>

text \<open>
  C1 (as amended). For every call to \<^verbatim>\<open>step\<close>: if after the physics update the ball's y
  position is less than 0, then \<^verbatim>\<open>step\<close> returns terminated = true, and the reward is the
  goal reward plus the shaping term, 10 + 0.001: the shaping test \<^verbatim>\<open>ball_y < height / 2\<close>
  is a separate \<^verbatim>\<open>if\<close> that runs after the goal tests, and a ball above the upper goal line
  is in the upper half.
\<close>

theorem step_top_goal:
  "snd (position (ball (space (physics_update phys a e)))) < 0 \<Longrightarrow>
   terminated (fst (step phys a e)) \<and> reward (fst (step phys a e)) = 10 + 0.001"
  by (simp add: step_def Let_def height_def)

text \<open>The ball crosses the upper goal line during the step: y goes from 2 to -8.\<close>

theorem step_top_goal_witness:
  "snd (position (ball (space (physics_update coast (0, 0) top_attack)))) < 0 \<and>
   terminated (fst (step coast (0, 0) top_attack)) \<and>
   reward (fst (step coast (0, 0) top_attack)) = 10.001"
  using step_top_goal[of coast "(0, 0)" top_attack]
  by (simp add: coast_update_ball top_attack_ball)

text \<open>C1 as stated fails there: the reward of that step is not 10.\<close>

theorem step_top_goal_reward_counterexample:
  "snd (position (ball (space (physics_update coast (0, 0) top_attack)))) < 0 \<and>
   reward (fst (step coast (0, 0) top_attack)) \<noteq> 10"
  by (simp add: step_def Let_def height_def coast_update_ball top_attack_ball)

text \<open>
  C5. For every call to \<^verbatim>\<open>step\<close>: if after the physics update the ball's y position is
  greater than the table height (700), then \<^verbatim>\<open>step\<close> returns terminated = true with reward
  exactly -10.
\<close>

theorem step_bottom_goal:
  "snd (position (ball (space (physics_update phys a e)))) > height \<Longrightarrow>
   terminated (fst (step phys a e)) \<and> reward (fst (step phys a e)) = - 10"
  by (simp add: step_def Let_def height_def)

text \<open>The ball crosses the lower goal line during the step: y goes from 698 to 708.\<close>

theorem step_bottom_goal_witness:
  "snd (position (ball (space (physics_update coast (0, 0) bottom_attack)))) > height \<and>
   terminated (fst (step coast (0, 0) bottom_attack)) \<and>
   reward (fst (step coast (0, 0) bottom_attack)) = - 10"
  using step_bottom_goal[of coast "(0, 0)" bottom_attack]
  by (simp add: coast_update_ball bottom_attack_ball height_def)

text \<open>
  C6. For every call to \<^verbatim>\<open>step\<close> in which no goal is scored (the ball's y position is within
  [0, height] after the physics update), the returned reward is the shaping term alone:
  0.001 if the ball's y position is below height / 2, and 0 otherwise.
\<close>

theorem step_no_goal_reward:
  "0 \<le> snd (position (ball (space (physics_update phys a e)))) \<Longrightarrow>
   snd (position (ball (space (physics_update phys a e)))) \<le> height \<Longrightarrow>
   reward (fst (step phys a e)) =
     (if snd (position (ball (space (physics_update phys a e)))) < height / 2 then 0.001 else 0)"
  by (simp add: step_def Let_def height_def)

text \<open>The first step after the kickoff: the ball drifts from y = 350 into the upper half.\<close>

theorem step_no_goal_reward_witness:
  "0 \<le> snd (position (ball (space (physics_update coast (0, 0) kickoff)))) \<and>
   snd (position (ball (space (physics_update coast (0, 0) kickoff)))) \<le> height \<and>
   reward (fst (step coast (0, 0) kickoff)) = 0.001"
  using step_no_goal_reward[of coast "(0, 0)" kickoff]
  by (simp add: coast_update_ball kickoff_ball height_def)

subsection \<open>Truncation\<close>

lemma reset_steps: "steps (snd (reset h0 rand b m)) = 0"
  by (simp add: reset_def Let_def)

lemma step_terminated:
  "terminated (fst (step phys a e)) =
     (snd (position (ball (space (physics_update phys a e)))) < 0 \<or>
      height < snd (position (ball (space (physics_update phys a e)))))"
  by (simp add: step_def Let_def)

lemma step_space: "space (snd (step phys a e)) = space (physics_update phys a e)"
  by (simp add: step_def Let_def)

lemma coast_step_still:
  assumes "velocity (ball (space e)) = (0, 0)"
  shows "ball (space (snd (step coast a e))) = ball (space e)"
  by (simp add: step_space coast_update_ball assms)

lemma coast_run_no_goal:
  assumes "velocity (ball (space e)) = (0, 0)"
    and "0 \<le> snd (position (ball (space e)))"
    and "snd (position (ball (space e))) \<le> height"
  shows "map terminated (fst (run coast as e)) = replicate (length as) False"
  using assms
proof (induction as arbitrary: e)
  case Nil
  show ?case by simp
next
  case (Cons a as)
  have same: "ball (space (snd (step coast a e))) = ball (space e)"
    using Cons.prems(1) by (rule coast_step_still)
  have here: "\<not> terminated (fst (step coast a e))"
    using Cons.prems by (simp add: step_terminated coast_update_ball)
  have rest: "map terminated (fst (run coast as (snd (step coast a e)))) = replicate (length as) False"
    using Cons.prems by (intro Cons.IH) (simp_all add: same)
  show ?case using here rest by (simp add: run_Cons del: run.simps(2))
qed

lemma standstill_ball:
  "ball (space standstill) = \<lparr>position = (250, 350), velocity = (0, 0), force = (0, 0)\<rparr>"
  by (simp add: standstill_def reset_def Let_def create_ball_def create_body_def width_def height_def)

lemma standstill_steps: "steps standstill = 0"
  by (simp add: standstill_def reset_steps)

text \<open>
  C2 (as amended). Starting from \<^verbatim>\<open>reset\<close> (which sets the step counter to 0), call number
  \<open>i + 1\<close> of \<^verbatim>\<open>step\<close> returns truncated = true exactly when \<open>i + 1 > 2000\<close>: the 2001st call
  is the first to return truncated = true, and every earlier call, the 2000th included,
  returns truncated = false. The test is \<^verbatim>\<open>self.steps > 2000\<close> after the increment, and
  it does not look at termination.
\<close>

theorem truncated_from_call_2001:
  "i < length as \<Longrightarrow>
   truncated (fst (run phys as (snd (reset h0 rand use_bot mode))) ! i) = (2000 < i + 1)"
proof -
  assume "i < length as"
  then have "truncated (fst (run phys as (snd (reset h0 rand use_bot mode))) ! i) =
               (2000 < steps (snd (reset h0 rand use_bot mode)) + int i + 1)"
    by (rule run_truncated_nth)
  also have "\<dots> = (2000 < i + 1)"
    by (simp add: reset_steps) linarith
  finally show ?thesis .
qed

text \<open>Calls 2000 and 2001 of a run of 2001 calls in play mode.\<close>

theorem truncated_from_call_2001_witness:
  "1999 < length (replicate 2001 (0 :: real, 0 :: real)) \<and>
   2000 < length (replicate 2001 (0 :: real, 0 :: real)) \<and>
   \<not> truncated (fst (run coast (replicate 2001 (0, 0)) (snd (reset () (0, 0) False None))) ! 1999) \<and>
   truncated (fst (run coast (replicate 2001 (0, 0)) (snd (reset () (0, 0) False None))) ! 2000)"
  using truncated_from_call_2001[of 1999 "replicate 2001 (0, 0)" coast "()" "(0, 0)" False None]
    truncated_from_call_2001[of 2000 "replicate 2001 (0, 0)" coast "()" "(0, 0)" False None]
  by simp

text \<open>
  C2 as stated fails: from a reset in play mode, with the ball at rest, no call terminates
  the episode, and the 2000th call returns truncated = false.
\<close>

theorem call_2000_not_truncated_counterexample:
  "steps standstill = 0 \<and>
   map terminated (fst (run coast (replicate 2000 (0, 0)) standstill)) = replicate 2000 False \<and>
   \<not> truncated (fst (run coast (replicate 2000 (0, 0)) standstill) ! 1999)"
proof -
  have "map terminated (fst (run coast (replicate 2000 (0, 0)) standstill)) =
          replicate (length (replicate 2000 (0 :: real, 0 :: real))) False"
    by (rule coast_run_no_goal) (simp_all add: standstill_ball height_def)
  moreover have "\<not> truncated (fst (run coast (replicate 2000 (0, 0)) standstill) ! 1999)"
    using run_truncated_nth[of 1999 "replicate 2000 (0, 0)" coast standstill]
    by (simp add: standstill_steps)
  ultimately show ?thesis by (simp add: standstill_steps)
qed

subsection \<open>Paddle constraints\<close>

text \<open>
  C3. After every invocation of the paddle constraint enforcement, and so after every call
  to \<^verbatim>\<open>step\<close> (whose last action on the world is the enforcement that follows the tenth
  substep), the agent (lower) paddle's centre is in
  [paddle_radius, width - paddle_radius] x [height/2 + paddle_radius, height - paddle_radius]
  and the AI (upper) paddle's centre is in
  [paddle_radius, width - paddle_radius] x [paddle_radius, height/2 - paddle_radius],
  with width = 500, height = 700, paddle_radius = 25.
\<close>

theorem paddles_stay_in_own_half:
  "in_box (position (agent_paddle (space (constrain_paddle_movement e))))
     paddle_radius (width - paddle_radius) (height / 2 + paddle_radius) (height - paddle_radius) \<and>
   in_box (position (ai_paddle (space (constrain_paddle_movement e))))
     paddle_radius (width - paddle_radius) paddle_radius (height / 2 - paddle_radius) \<and>
   in_box (position (agent_paddle (space (snd (step phys a e')))))
     paddle_radius (width - paddle_radius) (height / 2 + paddle_radius) (height - paddle_radius) \<and>
   in_box (position (ai_paddle (space (snd (step phys a e')))))
     paddle_radius (width - paddle_radius) paddle_radius (height / 2 - paddle_radius) \<and>
   width = 500 \<and> height = 700 \<and> paddle_radius = 25"
proof -
  have "space (snd (step phys a e')) =
          space (physics_loop (Suc 9) phys (1 / 60)
            (if with_bot e'
             then move_bot (e'\<lparr>space := (space e')\<lparr>ai_paddle := apply_action (ai_paddle (space e')) a\<rparr>\<rparr>)
             else e'\<lparr>space := (space e')\<lparr>ai_paddle := apply_action (ai_paddle (space e')) a\<rparr>\<rparr>))"
    by (simp add: step_space physics_update_def Let_def del: physics_loop.simps)
  then have after_step:
    "in_box (position (agent_paddle (space (snd (step phys a e')))))
       paddle_radius (width - paddle_radius) (height / 2 + paddle_radius) (height - paddle_radius) \<and>
     in_box (position (ai_paddle (space (snd (step phys a e')))))
       paddle_radius (width - paddle_radius) paddle_radius (height / 2 - paddle_radius)"
    using physics_loop_in_box[of 9 phys "1 / 60"] by (simp del: physics_loop.simps)
  have dims: "width = 500 \<and> height = 700 \<and> paddle_radius = 25"
    by (simp add: width_def height_def paddle_radius_def)
  from constrain_in_box[of e] after_step dims show ?thesis by blast
qed

text \<open>
  C9. After every paddle constraint enforcement the two paddles cannot overlap: the agent
  paddle's centre y is at least height/2 + 25, the AI paddle's centre y is at most
  height/2 - 25, so the distance between the centres is at least 50, the sum of the radii.
\<close>

theorem paddles_never_overlap:
  "height / 2 + 25 \<le> snd (position (agent_paddle (space (constrain_paddle_movement e)))) \<and>
   snd (position (ai_paddle (space (constrain_paddle_movement e)))) \<le> height / 2 - 25 \<and>
   2 * paddle_radius \<le>
     distance (position (agent_paddle (space (constrain_paddle_movement e))))
              (position (ai_paddle (space (constrain_paddle_movement e)))) \<and>
   2 * paddle_radius = 50"
proof -
  let ?ag = "position (agent_paddle (space (constrain_paddle_movement e)))"
  let ?ai = "position (ai_paddle (space (constrain_paddle_movement e)))"
  have lo: "height / 2 + 25 \<le> snd ?ag"
    using constrain_in_box(1)[of e] by (simp add: in_box_def paddle_radius_def)
  have hi: "snd ?ai \<le> height / 2 - 25"
    using constrain_in_box(2)[of e] by (simp add: in_box_def paddle_radius_def)
  have "snd ?ag - snd ?ai \<le> distance ?ag ?ai"
    by (simp add: distance_def vec_length_def)
  with lo hi show ?thesis by (simp add: paddle_radius_def)
qed

text \<open>
  C10. The paddle constraint enforcement modifies only the two paddles' positions: the
  ball (position and velocity), both paddles' velocities and the step counter are
  unchanged; so are the accumulated forces, the engine's hidden state, the control body
  and the two mode attributes.
\<close>

theorem constrain_changes_only_paddle_positions:
  "ball (space (constrain_paddle_movement e)) = ball (space e) \<and>
   velocity (ai_paddle (space (constrain_paddle_movement e))) = velocity (ai_paddle (space e)) \<and>
   velocity (agent_paddle (space (constrain_paddle_movement e))) = velocity (agent_paddle (space e)) \<and>
   force (ai_paddle (space (constrain_paddle_movement e))) = force (ai_paddle (space e)) \<and>
   force (agent_paddle (space (constrain_paddle_movement e))) = force (agent_paddle (space e)) \<and>
   solver (space (constrain_paddle_movement e)) = solver (space e) \<and>
   mouse_body (constrain_paddle_movement e) = mouse_body e \<and>
   steps (constrain_paddle_movement e) = steps e \<and>
   with_bot (constrain_paddle_movement e) = with_bot e \<and>
   render_mode (constrain_paddle_movement e) = render_mode e"
  by (simp add: constrain_frame)

subsection \<open>Actions\<close>











text \<open>On a shorter array the index raises.\<close>

lemma array_force_short:
  "length action < 2 \<Longrightarrow> array_force action = Inl IndexError"
  "length action < 2 \<Longrightarrow> apply_action_array p action = Inl IndexError"
  by (simp_all add: apply_action_array_def array_force_def Let_def)




subsection \<open>Observations\<close>

text \<open>
  C7. For every state in which the ball and both paddle centres lie inside the 500 x 700
  table and each ball velocity component has magnitude at most 1000, every entry of the
  8-element observation vector (ball x/width, ball y/height, ball vx/1000, ball vy/1000,
  AI paddle x/width, AI paddle y/height, agent paddle x/width, agent paddle y/height)
  lies within [-1, 1].
\<close>

theorem obs_in_unit_range:
  assumes "in_box (position (ball (space e))) 0 width 0 height"
    and "in_box (position (ai_paddle (space e))) 0 width 0 height"
    and "in_box (position (agent_paddle (space e))) 0 width 0 height"
    and "\<bar>fst (velocity (ball (space e)))\<bar> \<le> 1000"
    and "\<bar>snd (velocity (ball (space e)))\<bar> \<le> 1000"
  shows "get_obs e =
           [fst (position (ball (space e))) / 500, snd (position (ball (space e))) / 700,
            fst (velocity (ball (space e))) / 1000, snd (velocity (ball (space e))) / 1000,
            fst (position (ai_paddle (space e))) / 500, snd (position (ai_paddle (space e))) / 700,
            fst (position (agent_paddle (space e))) / 500,
            snd (position (agent_paddle (space e))) / 700] \<and>
         length (get_obs e) = 8 \<and>
         (\<forall>x \<in> set (get_obs e). - 1 \<le> x \<and> x \<le> 1)"
proof -
  have layout: "get_obs e =
           [fst (position (ball (space e))) / 500, snd (position (ball (space e))) / 700,
            fst (velocity (ball (space e))) / 1000, snd (velocity (ball (space e))) / 1000,
            fst (position (ai_paddle (space e))) / 500, snd (position (ai_paddle (space e))) / 700,
            fst (position (agent_paddle (space e))) / 500,
            snd (position (agent_paddle (space e))) / 700]"
    by (simp add: get_obs_def Let_def case_prod_beta width_def height_def)
  have "\<forall>x \<in> set (get_obs e). - 1 \<le> x \<and> x \<le> 1"
    unfolding layout using assms by (auto simp add: in_box_def width_def height_def)
  with layout show ?thesis by simp
qed

lemma kickoff_paddles:
  "position (ai_paddle (space kickoff)) = (250, 100)"
  "position (agent_paddle (space kickoff)) = (250, 600)"
  "mouse_body kickoff = (250, 600)"
  "with_bot kickoff"
  by (simp_all add: kickoff_def reset_def Let_def create_body_def width_def height_def)

text \<open>The observation at the kickoff.\<close>

theorem obs_in_unit_range_witness:
  "in_box (position (ball (space kickoff))) 0 width 0 height \<and>
   in_box (position (ai_paddle (space kickoff))) 0 width 0 height \<and>
   in_box (position (agent_paddle (space kickoff))) 0 width 0 height \<and>
   \<bar>fst (velocity (ball (space kickoff)))\<bar> \<le> 1000 \<and>
   \<bar>snd (velocity (ball (space kickoff)))\<bar> \<le> 1000 \<and>
   get_obs kickoff = [1 / 2, 1 / 2, 3 / 20, - 1 / 5, 1 / 2, 1 / 7, 1 / 2, 6 / 7] \<and>
   length (get_obs kickoff) = 8 \<and>
   - 1 \<le> Min (set (get_obs kickoff)) \<and> Max (set (get_obs kickoff)) \<le> 1"
proof -
  have h: "in_box (position (ball (space kickoff))) 0 width 0 height"
    "in_box (position (ai_paddle (space kickoff))) 0 width 0 height"
    "in_box (position (agent_paddle (space kickoff))) 0 width 0 height"
    "\<bar>fst (velocity (ball (space kickoff)))\<bar> \<le> 1000"
    "\<bar>snd (velocity (ball (space kickoff)))\<bar> \<le> 1000"
    by (simp_all add: in_box_def kickoff_ball kickoff_paddles width_def height_def)
  from obs_in_unit_range[OF h] h show ?thesis
    by (simp add: kickoff_ball kickoff_paddles)
qed

subsection \<open>The scripted opponent\<close>

lemma move_bot_mouse:
  "mouse_body (move_bot e) =
     (clip (spec_tracked_x (fst (position (ball (space e)))) (fst (mouse_body e)))
        paddle_radius (width - paddle_radius),
      height - 100)"
  by (simp add: move_bot_def Let_def spec_tracked_x_def sgn_real_def) 

lemma spec_tracked_x_capped: "\<bar>spec_tracked_x bx cx - cx\<bar> \<le> 8"
  by (simp add: spec_tracked_x_def)

lemma spec_tracked_x_toward: "\<bar>bx - spec_tracked_x bx cx\<bar> \<le> \<bar>bx - cx\<bar>"
  by (simp add: spec_tracked_x_def)

lemma spec_tracked_x_snap: "\<bar>bx - cx\<bar> < 8 \<Longrightarrow> spec_tracked_x bx cx = bx"
  by (simp add: spec_tracked_x_def)

lemma clip_tracked_capped:
  assumes "lo \<le> cx" and "cx \<le> hi"
  shows "\<bar>clip (spec_tracked_x bx cx) lo hi - cx\<bar> \<le> 8"
    and "\<bar>bx - clip (spec_tracked_x bx cx) lo hi\<bar> \<le> \<bar>bx - cx\<bar>"
  using assms by (auto simp add: clip_def spec_tracked_x_def)

lemma physics_update_mouse:
  "mouse_body (physics_update phys a e) = (if with_bot e then mouse_body (move_bot e) else mouse_body e)"
  by (simp add: physics_update_def Let_def physics_loop_frame move_bot_def)

lemma step_mouse:
  "mouse_body (snd (step phys a e)) = (if with_bot e then mouse_body (move_bot e) else mouse_body e)"
  by (simp add: step_def Let_def physics_update_mouse)

text \<open>
  C8. On every step with the bot enabled, the bot's control point is set to
  \<^verbatim>\<open>_move_bot\<close>'s result: the x coordinate moves toward the ball's x by at most 8 units
  (snapping to the ball's x when the horizontal distance is less than 8), the result is
  clamped to [paddle_radius, width - paddle_radius] = [25, 475], and y is set to
  height - 100 = 600. Where the control point starts inside [25, 475], as it does in every
  state reached from \<^verbatim>\<open>reset\<close> through \<^verbatim>\<open>step\<close>, the clamped x too is within 8 units of the
  old one and no farther from the ball.
\<close>

theorem bot_tracks_ball:
  assumes "bx = fst (position (ball (space e)))" and "cx = fst (mouse_body e)"
  shows "mouse_body (move_bot e) =
           (clip (spec_tracked_x bx cx) paddle_radius (width - paddle_radius), height - 100) \<and>
         \<bar>spec_tracked_x bx cx - cx\<bar> \<le> 8 \<and>
         \<bar>bx - spec_tracked_x bx cx\<bar> \<le> \<bar>bx - cx\<bar> \<and>
         (\<bar>bx - cx\<bar> < 8 \<longrightarrow> spec_tracked_x bx cx = bx) \<and>
         paddle_radius \<le> fst (mouse_body (move_bot e)) \<and>
         fst (mouse_body (move_bot e)) \<le> width - paddle_radius \<and>
         snd (mouse_body (move_bot e)) = height - 100 \<and>
         (paddle_radius \<le> cx \<and> cx \<le> width - paddle_radius \<longrightarrow>
            \<bar>fst (mouse_body (move_bot e)) - cx\<bar> \<le> 8 \<and>
            \<bar>bx - fst (mouse_body (move_bot e))\<bar> \<le> \<bar>bx - cx\<bar>) \<and>
         (with_bot e \<longrightarrow> mouse_body (snd (step phys a e)) = mouse_body (move_bot e)) \<and>
         paddle_radius = 25 \<and> width - paddle_radius = 475 \<and> height - 100 = 600"
proof -
  have m: "mouse_body (move_bot e) =
           (clip (spec_tracked_x bx cx) paddle_radius (width - paddle_radius), height - 100)"
    unfolding assms by (rule move_bot_mouse)
  have range: "paddle_radius \<le> fst (mouse_body (move_bot e)) \<and>
         fst (mouse_body (move_bot e)) \<le> width - paddle_radius"
    unfolding m by (simp add: clip_def paddle_radius_def width_def)
  have capped: "paddle_radius \<le> cx \<and> cx \<le> width - paddle_radius \<longrightarrow>
            \<bar>fst (mouse_body (move_bot e)) - cx\<bar> \<le> 8 \<and>
            \<bar>bx - fst (mouse_body (move_bot e))\<bar> \<le> \<bar>bx - cx\<bar>"
    unfolding m using clip_tracked_capped[of paddle_radius cx "width - paddle_radius" bx] by simp
  have dims: "paddle_radius = 25 \<and> width - paddle_radius = 475 \<and> height - 100 = 600"
    by (simp add: paddle_radius_def width_def height_def)
  have stepped: "with_bot e \<longrightarrow> mouse_body (snd (step phys a e)) = mouse_body (move_bot e)"
    by (simp add: step_mouse)
  have y: "snd (mouse_body (move_bot e)) = height - 100"
    unfolding m by simp
  from m range capped dims stepped y spec_tracked_x_capped[of bx cx]
    spec_tracked_x_toward[of bx cx] spec_tracked_x_snap[of bx cx]
  show ?thesis by blast
qed

lemma far_ball_facts:
  "fst (position (ball (space far_ball))) = 100" "mouse_body far_ball = (250, 600)" "with_bot far_ball"
  by (simp_all add: far_ball_def place_ball_def kickoff_paddles)

lemma near_ball_facts:
  "fst (position (ball (space near_ball))) = 253" "mouse_body near_ball = (250, 600)" "with_bot near_ball"
  by (simp_all add: near_ball_def place_ball_def kickoff_paddles)

text \<open>Two steps of the bot from x = 250: capped (ball at 100) and snapping (ball at 253).\<close>

theorem bot_tracks_ball_witness:
  "100 = fst (position (ball (space far_ball))) \<and> 250 = fst (mouse_body far_ball) \<and>
   253 = fst (position (ball (space near_ball))) \<and> 250 = fst (mouse_body near_ball) \<and>
   with_bot far_ball \<and> with_bot near_ball \<and>
   \<bar>253 - 250 :: real\<bar> < 8 \<and> paddle_radius \<le> 250 \<and> 250 \<le> width - paddle_radius \<and>
   mouse_body (snd (step coast (0, 0) far_ball)) = (242, 600) \<and>
   mouse_body (snd (step coast (0, 0) near_ball)) = (253, 600)"
proof -
  have far: "100 = fst (position (ball (space far_ball)))" "250 = fst (mouse_body far_ball)"
    by (simp_all add: far_ball_facts)
  have near: "253 = fst (position (ball (space near_ball)))" "250 = fst (mouse_body near_ball)"
    by (simp_all add: near_ball_facts)
  have rest: "\<bar>253 - 250 :: real\<bar> < 8" "paddle_radius \<le> 250" "250 \<le> width - paddle_radius"
    by (simp_all add: paddle_radius_def width_def)
  have t: "spec_tracked_x 100 250 = 242" by (simp add: spec_tracked_x_def)
  from bot_tracks_ball[OF far, of coast "(0, 0)"] bot_tracks_ball[OF near, of coast "(0, 0)"]
    far near rest far_ball_facts(3) near_ball_facts(3)
  show ?thesis by (simp add: t clip_def)
qed

text \<open>The control point stays inside [25, 475] in every state reached from \<^verbatim>\<open>reset\<close>.\<close>

lemma reset_mouse: "mouse_body (snd (reset h0 rand use_bot mode)) = (250, 600)"
  by (simp add: reset_def Let_def create_body_def width_def height_def)

lemma step_mouse_in_range:
  assumes "paddle_radius \<le> fst (mouse_body e)" and "fst (mouse_body e) \<le> width - paddle_radius"
  shows "paddle_radius \<le> fst (mouse_body (snd (step phys a e))) \<and>
         fst (mouse_body (snd (step phys a e))) \<le> width - paddle_radius"
  using assms by (simp add: step_mouse move_bot_mouse clip_def paddle_radius_def width_def)

lemma run_mouse_in_range:
  assumes "paddle_radius \<le> fst (mouse_body e)" and "fst (mouse_body e) \<le> width - paddle_radius"
  shows "paddle_radius \<le> fst (mouse_body (snd (run phys as e))) \<and>
         fst (mouse_body (snd (run phys as e))) \<le> width - paddle_radius"
  using assms
proof (induction as arbitrary: e)
  case Nil
  then show ?case by simp
next
  case (Cons a as)
  from step_mouse_in_range[OF Cons.prems, of phys a]
  have "paddle_radius \<le> fst (mouse_body (snd (run phys as (snd (step phys a e))))) \<and>
        fst (mouse_body (snd (run phys as (snd (step phys a e))))) \<le> width - paddle_radius"
    by (intro Cons.IH) simp_all
  then show ?case by (simp add: run_Cons del: run.simps(2))
qed

lemma bot_control_point_reachable:
  "paddle_radius \<le> fst (mouse_body (snd (run phys as (snd (reset h0 rand use_bot mode))))) \<and>
   fst (mouse_body (snd (run phys as (snd (reset h0 rand use_bot mode))))) \<le> width - paddle_radius"
  by (rule run_mouse_in_range) (simp_all add: reset_mouse paddle_radius_def width_def)

end
